theory Spec2Isabelle
  imports Main "HOL-Library.Sublist" "HOL-Library.Multiset"
begin

section \<open>Data model\<close>

text \<open>
  The dashboard script \<^verbatim>\<open>app.py\<close> reads a catalogue of titles into a pandas frame,
  normalises it in \<^verbatim>\<open>load_data\<close>, filters it by the sidebar selection and derives one
  summary table per chart. A frame is modelled as the list of its rows in index order, a
  nullable cell as an \<open>option\<close> (\<open>None\<close> is pandas' NaN / NaT), and text as a list of
  ASCII characters.
\<close>

text \<open>A resolved calendar date (a pandas \<^verbatim>\<open>Timestamp\<close>), reduced to the parts the script reads.\<close>

record timestamp =
  year :: int
  month :: int
  day :: int

text \<open>
  One row of the frame as \<^verbatim>\<open>pd.read_csv\<close> returns it. The script reads six columns;
  the remaining columns matter only to \<^verbatim>\<open>drop_duplicates\<close>, which compares whole rows.
\<close>

record raw_row =
  raw_type :: "string option"
  raw_date_added :: "string option"
  raw_country :: "string option"
  raw_rating :: "string option"
  raw_duration :: "string option"
  raw_listed_in :: "string option"
  raw_others :: "string option list"

text \<open>
  One row of the frame that \<^verbatim>\<open>load_data\<close> returns: \<open>date_added\<close> holds a timestamp,
  \<open>year_added\<close> and \<open>month_added\<close> are the derived columns, and the three filled columns
  hold text.
\<close>

record clean_row =
  type :: "string option"
  date_added :: "timestamp option"
  year_added :: "int option"
  month_added :: "int option"
  country :: string
  rating :: string
  duration :: string
  listed_in :: "string option"
  others :: "string option list"

text \<open>
  The exceptions of the aggregations. \<open>ConversionError\<close> is what \<^verbatim>\<open>astype(int)\<close> raises
  for a cell it cannot convert: \<^verbatim>\<open>ValueError\<close> for text that is no integer literal,
  \<^verbatim>\<open>OverflowError\<close> for a literal outside the 64-bit range. \<open>AttributeError\<close> is what the
  \<^verbatim>\<open>.str\<close> accessor raises on a column that pandas does not hold as text.
\<close>

datatype error = ConversionError | AttributeError

text \<open>
  A cell of an object column after \<^verbatim>\<open>.replace("Unknown", 0)\<close>: still text, or the
  integer that replaced the sentinel.
\<close>

datatype obj = PyStr string | PyInt int

section \<open>Text primitives\<close>

text \<open>
  White space as \<^verbatim>\<open>str.strip()\<close> and \<^verbatim>\<open>str.isspace()\<close> see it (ASCII part): tab, line
  feed, vertical tab, form feed, carriage return, the four separators 28 to 31 and the space.
\<close>

definition py_isspace :: "char \<Rightarrow> bool" where
  "py_isspace c = ((of_char c :: nat) \<in> {9, 10, 11, 12, 13, 28, 29, 30, 31, 32})"

text \<open>White space as \<^verbatim>\<open>int()\<close> skips it around an ASCII literal.\<close>

definition c_isspace :: "char \<Rightarrow> bool" where
  "c_isspace c = ((of_char c :: nat) \<in> {9, 10, 11, 12, 13, 32})"

definition is_digit :: "char \<Rightarrow> bool" where
  "is_digit c = (48 \<le> (of_char c :: nat) \<and> (of_char c :: nat) \<le> 57)"

definition digit_val :: "char \<Rightarrow> nat" where
  "digit_val c = of_char c - 48"

text \<open>\<^verbatim>\<open>s.strip()\<close>: white space removed at both ends.\<close>

definition str_strip :: "string \<Rightarrow> string" where
  "str_strip s = rev (dropWhile py_isspace (rev (dropWhile py_isspace s)))"

text \<open>\<^verbatim>\<open>s.startswith(p)\<close>.\<close>

fun startswith :: "string \<Rightarrow> string \<Rightarrow> bool" where
  "startswith s [] = True"
| "startswith [] (p # ps) = False"
| "startswith (c # cs) (p # ps) = (c = p \<and> startswith cs ps)"

text \<open>
  \<^verbatim>\<open>s.replace(pat, rep)\<close> for a non-empty pattern, which is what
  \<^verbatim>\<open>Series.str.replace(pat, rep, regex=False)\<close> applies to each cell: every occurrence,
  found left to right without overlap, is replaced. The script's patterns are the
  constants \<^verbatim>\<open>" min"\<close>, \<^verbatim>\<open>" Season"\<close> and \<^verbatim>\<open>"s"\<close>; an empty pattern leaves the
  text as it is here.
\<close>

function str_replace :: "string \<Rightarrow> string \<Rightarrow> string \<Rightarrow> string" where
  "str_replace pat rep [] = []"
| "str_replace pat rep (c # cs) =
     (if pat \<noteq> [] \<and> startswith (c # cs) pat
      then rep @ str_replace pat rep (drop (length pat) (c # cs))
      else c # str_replace pat rep cs)"
  by pat_completeness auto
termination
  by (relation "measure (\<lambda>(pat, rep, s). length s)") auto

text \<open>
  \<^verbatim>\<open>s.split(sep)\<close> for a one-character separator: the pieces between the separators,
  always at least one piece (the empty text splits into one empty piece).
\<close>

fun str_split :: "char \<Rightarrow> string \<Rightarrow> string list" where
  "str_split sep [] = [[]]"
| "str_split sep (c # cs) =
     (if c = sep then [] # str_split sep cs
      else (case str_split sep cs of
              [] \<Rightarrow> [[c]]
            | p # ps \<Rightarrow> (c # p) # ps))"

text \<open>
  The digits of an integer literal after the first one: Python accepts single underscores
  between digits. The accumulator is the value read so far.
\<close>

fun int_digits :: "nat \<Rightarrow> string \<Rightarrow> nat option" where
  "int_digits acc [] = Some acc"
| "int_digits acc (c # cs) =
     (if is_digit c then int_digits (acc * 10 + digit_val c) cs
      else if c = CHR ''_'' then
        (case cs of
           [] \<Rightarrow> None
         | d # ds \<Rightarrow> if is_digit d then int_digits (acc * 10 + digit_val d) ds else None)
      else None)"

definition int_body :: "string \<Rightarrow> nat option" where
  "int_body s = (case s of
                   [] \<Rightarrow> None
                 | c # cs \<Rightarrow> if is_digit c then int_digits (digit_val c) cs else None)"

text \<open>
  \<^verbatim>\<open>int(s)\<close> in base ten on ASCII text: surrounding white space is skipped, one sign is
  allowed, the rest must be digits; anything else raises. The value is Python's unbounded
  integer.
\<close>

definition py_int :: "string \<Rightarrow> error + int" where
  "py_int s =
     (let t = rev (dropWhile c_isspace (rev (dropWhile c_isspace s)))
      in case t of
           [] \<Rightarrow> Inl ConversionError
         | c # cs \<Rightarrow>
             if c = CHR ''-'' then
               (case int_body cs of None \<Rightarrow> Inl ConversionError | Some n \<Rightarrow> Inr (- int n))
             else if c = CHR ''+'' then
               (case int_body cs of None \<Rightarrow> Inl ConversionError | Some n \<Rightarrow> Inr (int n))
             else
               (case int_body t of None \<Rightarrow> Inl ConversionError | Some n \<Rightarrow> Inr (int n)))"

text \<open>The decimal text of a natural number, the \<open><N>\<close> of \<^verbatim>\<open>"<N> min"\<close>.\<close>

fun dec :: "nat \<Rightarrow> string" where
  "dec n = (if n < 10 then [char_of (48 + n)] else dec (n div 10) @ [char_of (48 + n mod 10)])"

declare dec.simps [simp del]

section \<open>Frame primitives\<close>

text \<open>
  \<^verbatim>\<open>drop_duplicates()\<close> / \<^verbatim>\<open>unique()\<close>: the first occurrence of every value is kept, in
  order; \<open>seen\<close> holds the values met so far.
\<close>

fun first_seen :: "'a list \<Rightarrow> 'a list \<Rightarrow> 'a list" where
  "first_seen seen [] = []"
| "first_seen seen (x # xs) =
     (if x \<in> set seen then first_seen seen xs else x # first_seen (x # seen) xs)"

definition drop_duplicates :: "'a list \<Rightarrow> 'a list" where
  "drop_duplicates xs = first_seen [] xs"

text \<open>\<^verbatim>\<open>Series.dropna()\<close>: the present cells of a column.\<close>

definition dropna :: "'a option list \<Rightarrow> 'a list" where
  "dropna col = concat (map (\<lambda>v. case v of None \<Rightarrow> [] | Some x \<Rightarrow> [x]) col)"

text \<open>\<^verbatim>\<open>Series.fillna(v)\<close> on one cell.\<close>

definition fillna :: "'a \<Rightarrow> 'a option \<Rightarrow> 'a" where
  "fillna v c = (case c of None \<Rightarrow> v | Some x \<Rightarrow> x)"

text \<open>
  The first step of \<^verbatim>\<open>Series.value_counts()\<close> on a column without missing cells: one
  (value, count) pair per distinct value, in first-seen order.
\<close>

definition group_counts :: "'a list \<Rightarrow> ('a \<times> nat) list" where
  "group_counts col = map (\<lambda>k. (k, count_list col k)) (drop_duplicates col)"

text \<open>
  The second step: \<^verbatim>\<open>sort_values(ascending=False)\<close> on the counts. The script passes no
  sort kind, so pandas' default sort decides where rows with equal counts go. The sort is
  the parameter \<open>sort_values\<close>; what is known of it is \<open>sorts_by_count\<close>: it permutes the
  rows and leaves the counts in descending order.
\<close>

definition sorts_by_count :: "(('a \<times> nat) list \<Rightarrow> ('a \<times> nat) list) \<Rightarrow> bool" where
  "sorts_by_count sort_values =
     (\<forall>ps. mset (sort_values ps) = mset ps
           \<and> sorted_wrt (\<lambda>p q. snd q \<le> snd p) (sort_values ps))"

definition value_counts :: "(('a \<times> nat) list \<Rightarrow> ('a \<times> nat) list) \<Rightarrow> 'a list \<Rightarrow> ('a \<times> nat) list" where
  "value_counts sort_values col = sort_values (group_counts col)"

text \<open>\<^verbatim>\<open>head(n)\<close>: the first \<open>n\<close> rows.\<close>

definition head :: "nat \<Rightarrow> 'a list \<Rightarrow> 'a list" where
  "head n xs = take n xs"

text \<open>\<^verbatim>\<open>Series.between(lo, hi, inclusive="both")\<close> on one cell; a missing cell is not between.\<close>

definition between :: "int \<Rightarrow> int \<Rightarrow> int option \<Rightarrow> bool" where
  "between lo hi v = (case v of None \<Rightarrow> False | Some y \<Rightarrow> lo \<le> y \<and> y \<le> hi)"

text \<open>\<^verbatim>\<open>Series.isin(values)\<close>: the Boolean mask of a column.\<close>

definition isin :: "'a list \<Rightarrow> 'a list \<Rightarrow> bool list" where
  "isin col vals = map (\<lambda>v. v \<in> set vals) col"

text \<open>The elementwise \<^verbatim>\<open>&\<close> of two masks.\<close>

definition mask_and :: "bool list \<Rightarrow> bool list \<Rightarrow> bool list" where
  "mask_and a b = map (\<lambda>(x, y). x \<and> y) (zip a b)"

text \<open>\<^verbatim>\<open>df[mask]\<close>: the rows whose mask entry is true, in frame order.\<close>

definition boolean_index :: "'a list \<Rightarrow> bool list \<Rightarrow> 'a list" where
  "boolean_index df m = map fst (filter snd (zip df m))"

text \<open>
  \<^verbatim>\<open>astype(int)\<close> on a whole column: every cell is converted, and the first cell that
  cannot be converted raises for the column.
\<close>

fun astype_all :: "('a \<Rightarrow> error + int) \<Rightarrow> 'a list \<Rightarrow> error + int list" where
  "astype_all f [] = Inr []"
| "astype_all f (x # xs) =
     (case f x of
        Inl e \<Rightarrow> Inl e
      | Inr n \<Rightarrow> (case astype_all f xs of Inl e \<Rightarrow> Inl e | Inr ns \<Rightarrow> Inr (n # ns)))"

section \<open>Normalisation: \<^verbatim>\<open>load_data\<close>\<close>

text \<open>
  \<^verbatim>\<open>pd.to_datetime(cell, errors='coerce')\<close>. The flexible date parser belongs to pandas;
  it is the parameter \<open>parse\<close>, which resolves a date text or fails. A missing cell, the
  empty text and text of white space only give NaT whatever the parser; any other text
  gives NaT when the parser fails.
\<close>

definition to_datetime :: "(string \<Rightarrow> timestamp option) \<Rightarrow> string option \<Rightarrow> timestamp option" where
  "to_datetime parse c =
     (case c of
        None \<Rightarrow> None
      | Some s \<Rightarrow> if list_all py_isspace s then None else parse s)"

text \<open>
  Lines 25 to 34 of \<^verbatim>\<open>load_data\<close> on one row whose date cell has been converted to
  \<open>d\<close>: the derived columns are read off the date, the three categorical columns are filled.
\<close>

definition clean_of :: "raw_row \<Rightarrow> timestamp option \<Rightarrow> clean_row" where
  "clean_of r d =
     \<lparr> type = raw_type r,
       date_added = d,
       year_added = map_option year d,
       month_added = map_option month d,
       country = fillna ''Unknown'' (raw_country r),
       rating = fillna ''Unknown'' (raw_rating r),
       duration = fillna ''Unknown'' (raw_duration r),
       listed_in = raw_listed_in r,
       others = raw_others r \<rparr>"

text \<open>
  \<^verbatim>\<open>load_data\<close> after \<^verbatim>\<open>read_csv\<close>: duplicates are dropped, the date column is
  converted, rows whose date is NaT are dropped (\<^verbatim>\<open>dropna(subset=['date_added'])\<close>), and
  the remaining rows are completed. The function returns the frame and nothing else.
\<close>

definition load_data :: "(string \<Rightarrow> timestamp option) \<Rightarrow> raw_row list \<Rightarrow> clean_row list" where
  "load_data parse raw =
     (let df = drop_duplicates raw;
          dated = map (\<lambda>r. (r, to_datetime parse (raw_date_added r))) df;
          kept = filter (\<lambda>(r, d). d \<noteq> None) dated
      in map (\<lambda>(r, d). clean_of r d) kept)"

text \<open>
  Lines 43 to 45: \<^verbatim>\<open>missing_dates = df['date_added'].isna().sum()\<close> is computed on the
  frame that \<^verbatim>\<open>load_data\<close> returned, and the warning is shown when it is positive.
\<close>

definition missing_dates :: "clean_row list \<Rightarrow> nat" where
  "missing_dates df = length (filter (\<lambda>r. date_added r = None) df)"

definition warning_shown :: "clean_row list \<Rightarrow> bool" where
  "warning_shown df = (missing_dates df > 0)"

section \<open>Filtering: \<^verbatim>\<open>df_filtered\<close>\<close>

text \<open>
  Lines 71 to 75: three masks over the frame are combined with \<^verbatim>\<open>&\<close> and select the
  rows. \<open>year_filter\<close> is the slider's pair, \<open>type_filter\<close> and \<open>country_filter\<close> are the
  lists the two multiselects return.
\<close>

definition df_filtered ::
  "int \<times> int \<Rightarrow> string option list \<Rightarrow> string list \<Rightarrow> clean_row list \<Rightarrow> clean_row list" where
  "df_filtered year_filter type_filter country_filter df =
     boolean_index df
       (mask_and
          (mask_and
             (map (between (fst year_filter) (snd year_filter)) (map year_added df))
             (isin (map type df) type_filter))
          (isin (map country df) country_filter))"

section \<open>Aggregations\<close>


text \<open>
  Line 169: \<^verbatim>\<open>df_filtered['listed_in'].str.split(',').explode().str.strip()\<close>. A present
  text becomes one cell per piece, stripped; a missing text stays one missing cell. The
  \<^verbatim>\<open>.str\<close> accessor exists only on a column that pandas holds as text. A column with a
  text cell is one; for a column without any, the frame's history decides (pandas reads a
  column with no text at all as numbers), which is the parameter \<open>text_dtype\<close>. On a column
  that is not text the line raises.
\<close>

definition genres :: "bool \<Rightarrow> clean_row list \<Rightarrow> error + string option list" where
  "genres text_dtype df =
     (if text_dtype \<or> list_ex (\<lambda>r. listed_in r \<noteq> None) df
      then Inr (concat (map (\<lambda>r. case listed_in r of
                                   None \<Rightarrow> [None]
                                 | Some s \<Rightarrow> map (\<lambda>t. Some (str_strip t)) (str_split CHR '','' s)) df))
      else Inl AttributeError)"

text \<open>
  Line 170: \<^verbatim>\<open>genres.value_counts().head(15)\<close>; \<^verbatim>\<open>value_counts\<close> leaves missing cells
  out.
\<close>

definition top_genres ::
  "((string \<times> nat) list \<Rightarrow> (string \<times> nat) list) \<Rightarrow> bool \<Rightarrow> clean_row list
     \<Rightarrow> error + (string \<times> nat) list" where
  "top_genres sort_values text_dtype df =
     (case genres text_dtype df of
        Inl e \<Rightarrow> Inl e
      | Inr cells \<Rightarrow> Inr (head 15 (value_counts sort_values (dropna cells))))"

text \<open>\<^verbatim>\<open>Series.replace("Unknown", 0)\<close> on one text cell.\<close>

definition replace_unknown :: "string \<Rightarrow> obj" where
  "replace_unknown s = (if s = ''Unknown'' then PyInt 0 else PyStr s)"

text \<open>
  The target of \<^verbatim>\<open>astype(int)\<close> is the 64-bit integer: a value from \<open>- 2^63\<close> up to
  \<open>2^63 - 1\<close> is stored, any other raises.
\<close>

definition to_int64 :: "int \<Rightarrow> error + int" where
  "to_int64 n = (if - (2 ^ 63) \<le> n \<and> n < 2 ^ 63 then Inr n else Inl ConversionError)"

text \<open>
  \<^verbatim>\<open>astype(int)\<close> on one cell of an object column: text is read with \<^verbatim>\<open>int()\<close>, and the
  integer must fit the 64-bit target.
\<close>

definition astype_int :: "obj \<Rightarrow> error + int" where
  "astype_int v =
     (case v of
        PyInt n \<Rightarrow> to_int64 n
      | PyStr s \<Rightarrow> (case py_int s of Inl e \<Rightarrow> Inl e | Inr n \<Rightarrow> to_int64 n))"

text \<open>Lines 204 to 208 on one \<open>duration\<close> cell.\<close>

definition minutes_of :: "string \<Rightarrow> error + int" where
  "minutes_of d = astype_int (replace_unknown (str_replace '' min'' [] d))"



text \<open>Lines 220 to 225 on one \<open>duration\<close> cell.\<close>

definition seasons_of :: "string \<Rightarrow> error + int" where
  "seasons_of d =
     astype_int (replace_unknown (str_replace ''s'' [] (str_replace '' Season'' [] d)))"

text \<open>Lines 219 to 226: the \<open>seasons\<close> column of the TV Show rows and its summary.\<close>

definition tv_shows :: "clean_row list \<Rightarrow> clean_row list" where
  "tv_shows df = filter (\<lambda>r. type r = Some ''TV Show'') df"

definition tv_seasons :: "clean_row list \<Rightarrow> error + int list" where
  "tv_seasons df = astype_all seasons_of (map duration (tv_shows df))"

definition season_counts ::
  "((int \<times> nat) list \<Rightarrow> (int \<times> nat) list) \<Rightarrow> clean_row list \<Rightarrow> error + (int \<times> nat) list" where
  "season_counts sort_values df =
     (case tv_seasons df of
        Inl e \<Rightarrow> Inl e
      | Inr col \<Rightarrow> Inr (head 10 (value_counts sort_values col)))"






text \<open>
  A season table ordered as the specification words it: by season number, largest first.
\<close>

definition spec_season_descending :: "(int \<times> nat) list \<Rightarrow> bool" where
  "spec_season_descending t = sorted_wrt (\<lambda>p q. fst q \<le> fst p) t"

section \<open>Example data\<close>

text \<open>
  A parser instance for the examples: it resolves the date texts below as pandas does
  and fails on every other text.
\<close>

definition known_dates :: "(string \<times> timestamp) list" where
  "known_dates =
     [(''September 9, 2019'', \<lparr> year = 2019, month = 9, day = 9 \<rparr>),
      (''January 1, 2020'', \<lparr> year = 2020, month = 1, day = 1 \<rparr>),
      (''March 15, 2015'', \<lparr> year = 2015, month = 3, day = 15 \<rparr>)]"

definition parse_known :: "string \<Rightarrow> timestamp option" where
  "parse_known = map_of known_dates"

text \<open>
  The two raw rows of the specification's normalisation scenario; the empty country of the
  first row is a missing cell in the frame.
\<close>

definition scenario_raw :: "raw_row list" where
  "scenario_raw =
     [\<lparr> raw_type = Some ''Movie'', raw_date_added = Some ''September 9, 2019'',
        raw_country = None, raw_rating = Some ''PG'', raw_duration = Some ''90 min'',
        raw_listed_in = Some ''Comedies, Dramas'', raw_others = [] \<rparr>,
      \<lparr> raw_type = Some ''Movie'', raw_date_added = Some ''not a date'',
        raw_country = Some ''US'', raw_rating = Some ''PG'', raw_duration = Some ''Unknown'',
        raw_listed_in = Some ''Dramas'', raw_others = [] \<rparr>]"

text \<open>A clean row with the given type, year, country, duration and genre text.\<close>

definition title_row :: "string \<Rightarrow> int \<Rightarrow> string \<Rightarrow> string \<Rightarrow> string option \<Rightarrow> clean_row" where
  "title_row ty y c d g =
     \<lparr> type = Some ty,
       date_added = Some \<lparr> year = y, month = 1, day = 1 \<rparr>,
       year_added = Some y,
       month_added = Some 1,
       country = c,
       rating = ''PG'',
       duration = d,
       listed_in = g,
       others = [] \<rparr>"

definition example_frame :: "clean_row list" where
  "example_frame =
     [title_row ''Movie'' 2015 ''US'' ''90 min'' (Some ''Comedies, Dramas''),
      title_row ''TV Show'' 2018 ''IN'' ''1 Season'' (Some ''Dramas''),
      title_row ''Movie'' 2009 ''US'' ''Unknown'' None,
      title_row ''TV Show'' 2019 ''Unknown'' ''3 Seasons'' (Some ''Docuseries''),
      title_row ''TV Show'' 2020 ''US'' ''1 Season'' (Some ''Dramas, Comedies'')]"


text \<open>
  Two sorts that meet \<open>sorts_by_count\<close>: one leaves rows with equal counts in the order
  they come in, the other in the opposite order.
\<close>

definition sort_ties_kept :: "('a \<times> nat) list \<Rightarrow> ('a \<times> nat) list" where
  "sort_ties_kept ps = sort_key (\<lambda>p. - int (snd p)) ps"




text \<open>
  Six TV shows, one of three seasons, three of one season and two of two seasons, and one
  movie.
\<close>

definition season_frame :: "clean_row list" where
  "season_frame =
     [title_row ''TV Show'' 2019 ''US'' ''3 Seasons'' None,
      title_row ''TV Show'' 2019 ''US'' ''1 Season'' None,
      title_row ''Movie'' 2019 ''US'' ''90 min'' None,
      title_row ''TV Show'' 2019 ''IN'' ''1 Season'' None,
      title_row ''TV Show'' 2019 ''IN'' ''2 Seasons'' None,
      title_row ''TV Show'' 2019 ''UK'' ''1 Season'' None,
      title_row ''TV Show'' 2019 ''UK'' ''2 Seasons'' None]"

section \<open>Filtering: properties\<close>

lemma boolean_index_map: "boolean_index df (map P df) = filter P df"
  by (induction df) (simp_all add: boolean_index_def)

lemma mask_and_map: "mask_and (map P xs) (map Q xs) = map (\<lambda>x. P x \<and> Q x) xs"
  by (induction xs) (simp_all add: mask_and_def)

lemma isin_map: "isin (map f df) vals = map (\<lambda>r. f r \<in> set vals) df"
  by (simp add: isin_def)

text \<open>The three masks select exactly the rows that satisfy the three conditions.\<close>

lemma df_filtered_filter:
  "df_filtered yf tf cf df =
     filter (\<lambda>r. between (fst yf) (snd yf) (year_added r)
                  \<and> type r \<in> set tf \<and> country r \<in> set cf) df"
  by (simp add: df_filtered_def isin_map mask_and_map boolean_index_map)

text \<open>
  C3. For every frame and every selection, the filter keeps a row if and only if its
  \<open>year_added\<close> lies in the year range, both ends included, and its \<open>type\<close> is one of
  the selected types, and its \<open>country\<close> is one of the selected countries; with no type
  selected, or no country selected, the result is empty for every frame.
\<close>

theorem df_filtered_keeps_iff:
  "df_filtered (lo, hi) tf cf df =
     filter (\<lambda>r. (case year_added r of None \<Rightarrow> False | Some y \<Rightarrow> lo \<le> y \<and> y \<le> hi)
                  \<and> type r \<in> set tf \<and> country r \<in> set cf) df
   \<and> (r \<in> set (df_filtered (lo, hi) tf cf df) \<longleftrightarrow>
        r \<in> set df \<and> (\<exists>y. year_added r = Some y \<and> lo \<le> y \<and> y \<le> hi)
          \<and> type r \<in> set tf \<and> country r \<in> set cf)
   \<and> df_filtered (lo, hi) [] cf df = []
   \<and> df_filtered (lo, hi) tf [] df = []"
  by (auto simp add: df_filtered_filter between_def split: option.splits)

text \<open>
  C8. Filtering is idempotent: filtering the filtered frame again with the same selection
  gives the same rows in the same order.
\<close>

theorem df_filtered_idempotent:
  "df_filtered yf tf cf (df_filtered yf tf cf df) = df_filtered yf tf cf df"
  by (simp add: df_filtered_filter)

text \<open>
  C10. The filtered frame is an order-preserving subsequence of the frame: it consists of
  the rows at a set of positions of the frame, each position taken once and in increasing
  order, so no row is moved and no row is repeated.
\<close>

theorem df_filtered_subseq:
  "subseq (df_filtered yf tf cf df) df
   \<and> (\<exists>I. df_filtered yf tf cf df = nths df I)
   \<and> count_list (df_filtered yf tf cf df) r \<le> count_list df r
   \<and> (distinct df \<longrightarrow> distinct (df_filtered yf tf cf df))"
proof -
  let ?P = "\<lambda>r. between (fst yf) (snd yf) (year_added r)
                  \<and> type r \<in> set tf \<and> country r \<in> set cf"
  have eq: "df_filtered yf tf cf df = filter ?P df"
    by (rule df_filtered_filter)
  have c: "count_list (filter P xs) r \<le> count_list xs r" for P and xs :: "clean_row list"
    by (induction xs) auto
  have n: "\<exists>I. filter ?P df = nths df I"
    using filter_eq_nths by blast
  show ?thesis
    unfolding eq using c n by simp
qed

text \<open>A witness on the example frame, whose rows are distinct.\<close>

theorem df_filtered_subseq_witness:
  "distinct example_frame
   \<and> distinct (df_filtered (2010, 2020) [Some ''Movie'', Some ''TV Show'']
                 [''US'', ''Unknown''] example_frame)
   \<and> subseq (df_filtered (2010, 2020) [Some ''Movie'', Some ''TV Show'']
               [''US'', ''Unknown''] example_frame) example_frame"
proof -
  have d: "distinct example_frame"
    by (simp add: example_frame_def title_row_def)
  show ?thesis
    using df_filtered_subseq [of "(2010, 2020)" "[Some ''Movie'', Some ''TV Show'']"
        "[''US'', ''Unknown'']" example_frame] d
    by simp
qed

section \<open>Normalisation: properties\<close>

text \<open>
  The frame returned by \<^verbatim>\<open>load_data\<close> has no missing date, so the count taken from
  it is zero for every input.
\<close>

lemma missing_dates_load_data: "missing_dates (load_data parse raw) = 0"
  by (auto simp add: missing_dates_def load_data_def clean_of_def Let_def)

lemma load_data_map_filter:
  "load_data parse raw =
     map (\<lambda>r. clean_of r (to_datetime parse (raw_date_added r)))
       (filter (\<lambda>r. to_datetime parse (raw_date_added r) \<noteq> None) (drop_duplicates raw))"
  by (simp add: load_data_def Let_def filter_map comp_def case_prod_unfold)

text \<open>
  The rows kept and the rows whose date did not resolve make up the deduplicated frame.
\<close>

lemma load_data_partition:
  "length (load_data parse raw)
     + length (filter (\<lambda>r. to_datetime parse (raw_date_added r) = None) (drop_duplicates raw))
   = length (drop_duplicates raw)"
proof -
  have "length (filter (\<lambda>r. \<not> to_datetime parse (raw_date_added r) = None) (drop_duplicates raw))
      + length (filter (\<lambda>r. to_datetime parse (raw_date_added r) = None) (drop_duplicates raw))
      = length (drop_duplicates raw)"
    using sum_length_filter_compl
      [of "\<lambda>r. \<not> to_datetime parse (raw_date_added r) = None" "drop_duplicates raw"]
    by simp
  then show ?thesis
    by (simp only: load_data_map_filter length_map)
qed

lemma set_first_seen: "set (first_seen seen xs) = set xs - set seen"
  by (induction xs arbitrary: seen) auto

lemma set_drop_duplicates: "set (drop_duplicates xs) = set xs"
  by (simp add: drop_duplicates_def set_first_seen)

lemma scenario_dedup: "drop_duplicates scenario_raw = scenario_raw"
  by (simp add: drop_duplicates_def scenario_raw_def)

lemma scenario_clean:
  "load_data parse_known scenario_raw =
     [\<lparr> type = Some ''Movie'',
        date_added = Some \<lparr> year = 2019, month = 9, day = 9 \<rparr>,
        year_added = Some 2019, month_added = Some 9,
        country = ''Unknown'', rating = ''PG'', duration = ''90 min'',
        listed_in = Some ''Comedies, Dramas'', others = [] \<rparr>]"
  by (simp add: load_data_map_filter scenario_dedup)
     (simp add: scenario_raw_def to_datetime_def parse_known_def known_dates_def
        py_isspace_def clean_of_def fillna_def)

text \<open>
  C1. The claim: the rows kept plus the reported count of dropped rows make up the
  deduplicated input, and the warning fires when a row was dropped. On the scenario's two
  rows, one of which has an unparseable date, the script keeps one row and reports zero
  dropped rows, so the sum is one short and no warning is shown: the count is taken after
  the rows have been dropped.
\<close>

theorem dropped_rows_not_reported:
  "length (drop_duplicates scenario_raw) = 2
   \<and> length (load_data parse_known scenario_raw) = 1
   \<and> missing_dates (load_data parse_known scenario_raw) = 0
   \<and> length (load_data parse_known scenario_raw) + missing_dates (load_data parse_known scenario_raw)
       \<noteq> length (drop_duplicates scenario_raw)
   \<and> \<not> warning_shown (load_data parse_known scenario_raw)"
  by (simp add: scenario_clean scenario_dedup warning_shown_def missing_dates_def)
     (simp add: scenario_raw_def)

text \<open>
  C7. The clean frame consists of exactly the deduplicated rows whose date resolved, in
  order. Every clean row has a resolved \<open>date_added\<close>, has \<open>year_added\<close> and
  \<open>month_added\<close> present exactly when \<open>date_added\<close> is, both read off that date, and comes
  from a raw row whose date text is present, not blank and accepted by the parser. A
  missing date, an empty one, one of white space only and one the parser rejects all
  convert to NaT, so such rows are never kept.
\<close>

theorem load_data_dates_resolved:
  "load_data parse raw =
     map (\<lambda>r. clean_of r (to_datetime parse (raw_date_added r)))
       (filter (\<lambda>r. to_datetime parse (raw_date_added r) \<noteq> None) (drop_duplicates raw))
   \<and> (\<forall>c \<in> set (load_data parse raw).
        date_added c \<noteq> None
        \<and> (year_added c \<noteq> None \<longleftrightarrow> date_added c \<noteq> None)
        \<and> (month_added c \<noteq> None \<longleftrightarrow> date_added c \<noteq> None)
        \<and> year_added c = map_option year (date_added c)
        \<and> month_added c = map_option month (date_added c)
        \<and> (\<exists>r \<in> set raw. \<exists>s d. raw_date_added r = Some s \<and> \<not> list_all py_isspace s
              \<and> parse s = Some d \<and> c = clean_of r (Some d)))
   \<and> to_datetime parse None = None
   \<and> to_datetime parse (Some []) = None
   \<and> (\<forall>s. list_all py_isspace s \<longrightarrow> to_datetime parse (Some s) = None)
   \<and> (\<forall>s. parse s = None \<longrightarrow> to_datetime parse (Some s) = None)"
proof -
  have eq: "load_data parse raw =
     map (\<lambda>r. clean_of r (to_datetime parse (raw_date_added r)))
       (filter (\<lambda>r. to_datetime parse (raw_date_added r) \<noteq> None) (drop_duplicates raw))"
    by (rule load_data_map_filter)
  have rows: "date_added c \<noteq> None
        \<and> (year_added c \<noteq> None \<longleftrightarrow> date_added c \<noteq> None)
        \<and> (month_added c \<noteq> None \<longleftrightarrow> date_added c \<noteq> None)
        \<and> year_added c = map_option year (date_added c)
        \<and> month_added c = map_option month (date_added c)
        \<and> (\<exists>r \<in> set raw. \<exists>s d. raw_date_added r = Some s \<and> \<not> list_all py_isspace s
              \<and> parse s = Some d \<and> c = clean_of r (Some d))"
    if "c \<in> set (load_data parse raw)" for c
  proof -
    from that obtain r where r: "r \<in> set raw"
      and d: "to_datetime parse (raw_date_added r) \<noteq> None"
      and c: "c = clean_of r (to_datetime parse (raw_date_added r))"
      unfolding eq by (auto simp add: set_drop_duplicates)
    from d obtain s t where s: "raw_date_added r = Some s" "\<not> list_all py_isspace s" "parse s = Some t"
      by (auto simp add: to_datetime_def split: option.splits if_splits)
    then have t: "to_datetime parse (raw_date_added r) = Some t"
      by (simp add: to_datetime_def)
    show ?thesis
      using r s c t by (auto simp add: clean_of_def)
  qed
  have td: "to_datetime parse None = None \<and> to_datetime parse (Some []) = None
   \<and> (\<forall>s. list_all py_isspace s \<longrightarrow> to_datetime parse (Some s) = None)
   \<and> (\<forall>s. parse s = None \<longrightarrow> to_datetime parse (Some s) = None)"
    by (simp add: to_datetime_def)
  show ?thesis
    using eq rows td by blast
qed

text \<open>The scenario's rows as a witness: the first is kept with its date, the second is dropped.\<close>

theorem load_data_dates_resolved_witness:
  "date_added (hd (load_data parse_known scenario_raw)) \<noteq> None
   \<and> year_added (hd (load_data parse_known scenario_raw)) = Some 2019
   \<and> month_added (hd (load_data parse_known scenario_raw)) = Some 9
   \<and> length (load_data parse_known scenario_raw) = 1
   \<and> to_datetime parse_known (Some ''   '') = None
   \<and> to_datetime parse_known (Some ''not a date'') = None"
proof -
  note t = load_data_dates_resolved [of parse_known scenario_raw]
  have rows: "\<forall>c \<in> set (load_data parse_known scenario_raw). date_added c \<noteq> None"
    using t by blast
  have blank: "\<forall>s. list_all py_isspace s \<longrightarrow> to_datetime parse_known (Some s) = None"
    using t by blast
  have fails: "\<forall>s. parse_known s = None \<longrightarrow> to_datetime parse_known (Some s) = None"
    using t by blast
  have b: "list_all py_isspace ''   ''"
    by (simp add: py_isspace_def)
  have f: "parse_known ''not a date'' = None"
    by (simp add: parse_known_def known_dates_def)
  show ?thesis
    using rows blank [rule_format, OF b] fails [rule_format, OF f]
    by (simp add: scenario_clean)
qed

section \<open>Counting: properties of \<^verbatim>\<open>value_counts\<close>\<close>

lemma distinct_first_seen: "distinct (first_seen seen xs)"
  by (induction xs arbitrary: seen) (auto simp add: set_first_seen)

lemma distinct_drop_duplicates: "distinct (drop_duplicates xs)"
  by (simp add: drop_duplicates_def distinct_first_seen)

lemma distinct_keys_group_counts: "distinct (map fst (group_counts col))"
  by (simp add: group_counts_def comp_def distinct_drop_duplicates)

lemma set_group_counts: "set (group_counts col) = (\<lambda>k. (k, count_list col k)) ` set col"
  by (simp add: group_counts_def set_drop_duplicates)


text \<open>
  Whatever the sort, the table has the rows of the grouping, in descending order of count.
\<close>

lemma mset_value_counts:
  "sorts_by_count sv \<Longrightarrow> mset (value_counts sv col) = mset (group_counts col)"
  by (simp add: sorts_by_count_def value_counts_def)

lemma sorted_value_counts:
  "sorts_by_count sv \<Longrightarrow> sorted_wrt (\<lambda>p q. snd q \<le> snd p) (value_counts sv col)"
  by (simp add: sorts_by_count_def value_counts_def)

lemma set_value_counts:
  "sorts_by_count sv \<Longrightarrow> set (value_counts sv col) = (\<lambda>k. (k, count_list col k)) ` set col"
  using mset_eq_setD [OF mset_value_counts] by (simp add: set_group_counts)

lemma distinct_keys_value_counts:
  assumes "sorts_by_count sv"
  shows "distinct (map fst (value_counts sv col))"
proof -
  have "mset (map fst (value_counts sv col)) = mset (map fst (group_counts col))"
    using mset_value_counts [OF assms, of col] by (metis mset_map)
  then show ?thesis
    using distinct_keys_group_counts [of col] mset_eq_imp_distinct_iff by blast
qed

lemma keys_value_counts:
  "sorts_by_count sv \<Longrightarrow> set (map fst (value_counts sv col)) = set col"
  by (auto simp add: set_value_counts image_iff)

lemma snd_value_counts:
  assumes "sorts_by_count sv"
  shows "map snd (value_counts sv col) = map (count_list col) (map fst (value_counts sv col))"
proof (rule nth_equalityI)
  show "length (map snd (value_counts sv col)) = length (map (count_list col) (map fst (value_counts sv col)))"
    by simp
next
  fix i assume "i < length (map snd (value_counts sv col))"
  then have i: "i < length (value_counts sv col)" by simp
  then have "value_counts sv col ! i \<in> (\<lambda>k. (k, count_list col k)) ` set col"
    using set_value_counts [OF assms, of col] nth_mem by blast
  then show "map snd (value_counts sv col) ! i = map (count_list col) (map fst (value_counts sv col)) ! i"
    using i by auto
qed




text \<open>
  Cutting the table to its first rows leaves out no row with a larger count than a row
  that is kept.
\<close>

lemma head_keeps_largest:
  assumes "sorts_by_count sv"
  shows "\<forall>p \<in> set (head n (value_counts sv col)). \<forall>q \<in> set (drop n (value_counts sv col)). snd q \<le> snd p"
proof -
  have "sorted_wrt (\<lambda>p q. snd q \<le> snd p) (take n (value_counts sv col) @ drop n (value_counts sv col))"
    using sorted_value_counts [OF assms, of col] by simp
  then show ?thesis
    unfolding head_def sorted_wrt_append by blast
qed


text \<open>
  The two example sorts meet \<open>sorts_by_count\<close>.
\<close>

lemma sort_ties_kept_props:
  "mset (sort_ties_kept ps) = mset ps
   \<and> sorted_wrt (\<lambda>p q. snd q \<le> snd p) (sort_ties_kept ps)"
proof -
  have "sorted (map (\<lambda>p. - int (snd p)) (sort_key (\<lambda>p. - int (snd p)) ps))"
    by (rule sorted_sort_key)
  then have "sorted_wrt (\<lambda>p q. snd q \<le> snd p) (sort_key (\<lambda>p. - int (snd p)) ps)"
    by (simp add: sorted_map sorted_wrt_map)
  then show ?thesis
    by (simp add: sort_ties_kept_def)
qed

lemma sorts_ties_kept: "sorts_by_count sort_ties_kept"
  by (simp add: sorts_by_count_def sort_ties_kept_props)


text \<open>When all counts differ the sort has no choice.\<close>

lemma value_counts_unique:
  assumes "sorts_by_count sv" and "distinct (map snd (group_counts col))"
  shows "value_counts sv col = sort_ties_kept (group_counts col)"
proof -
  let ?k = "\<lambda>p::'a \<times> nat. - int (snd p)"
  let ?a = "value_counts sv col" and ?b = "sort_ties_kept (group_counts col)"
  have ma: "mset ?a = mset (group_counts col)"
    by (rule mset_value_counts [OF assms(1)])
  have mb: "mset ?b = mset (group_counts col)"
    by (simp add: sort_ties_kept_props)
  have inj: "inj_on ?k (set (group_counts col))"
    using assms(2) by (auto simp add: inj_on_def distinct_map)
  have dg: "distinct (map ?k (group_counts col))"
    using assms(2) inj by (simp add: distinct_map)
  have da: "distinct (map ?k ?a)"
    using dg ma by (metis mset_eq_imp_distinct_iff mset_map)
  have db: "distinct (map ?k ?b)"
    using dg mb by (metis mset_eq_imp_distinct_iff mset_map)
  have sa: "sorted (map ?k ?a)"
    using sorted_value_counts [OF assms(1), of col]
    by (simp add: sorted_map)
  have sb: "sorted (map ?k ?b)"
    by (simp add: sort_ties_kept_def)
  have "set (map ?k ?a) = set (map ?k ?b)"
    using ma mb by (metis mset_eq_setD mset_map)
  then have "map ?k ?a = map ?k ?b"
    using sa sb da db by (metis sorted_distinct_set_unique)
  moreover have "inj_on ?k (set ?a \<union> set ?b)"
    using inj ma mb by (metis mset_eq_setD sup.idem)
  ultimately show ?thesis
    by (rule map_inj_on)
qed








section \<open>Duration parsing: properties\<close>

lemma digit_char: "d < 10 \<Longrightarrow> is_digit (char_of (48 + d)) \<and> digit_val (char_of (48 + d)) = d"
  by (simp add: is_digit_def digit_val_def)

lemma dec_digits: "list_all is_digit (dec n) \<and> dec n \<noteq> []"
proof (induction n rule: dec.induct)
  case (1 n)
  show ?case
  proof (cases "n < 10")
    case True
    then show ?thesis by (simp add: dec.simps [of n] digit_char)
  next
    case False
    then show ?thesis using 1 by (simp add: dec.simps [of n] digit_char)
  qed
qed

lemma int_digits_all:
  "list_all is_digit ds \<Longrightarrow> int_digits acc ds = Some (foldl (\<lambda>a c. a * 10 + digit_val c) acc ds)"
  by (induction ds arbitrary: acc) simp_all

lemma int_body_all:
  "list_all is_digit ds \<Longrightarrow> ds \<noteq> [] \<Longrightarrow>
     int_body ds = Some (foldl (\<lambda>a c. a * 10 + digit_val c) 0 ds)"
  by (cases ds) (simp_all add: int_body_def int_digits_all)

lemma foldl_dec: "foldl (\<lambda>a c. a * 10 + digit_val c) 0 (dec n) = n"
proof (induction n rule: dec.induct)
  case (1 n)
  show ?case
  proof (cases "n < 10")
    case True
    then show ?thesis by (simp add: dec.simps [of n] digit_char)
  next
    case False
    then show ?thesis using 1 by (simp add: dec.simps [of n] digit_char)
  qed
qed

lemma int_body_dec: "int_body (dec n) = Some n"
  using dec_digits [of n] by (simp add: int_body_all foldl_dec)

lemma digit_not_space: "is_digit c \<Longrightarrow> \<not> c_isspace c"
  by (auto simp add: is_digit_def c_isspace_def)

lemma strip_digits:
  assumes "list_all is_digit ds"
  shows "rev (dropWhile c_isspace (rev (dropWhile c_isspace ds))) = ds"
proof (cases ds rule: rev_cases)
  case Nil
  then show ?thesis by simp
next
  case (snoc ys y)
  have a: "dropWhile c_isspace ds = ds"
    using assms by (cases ds) (simp_all add: digit_not_space)
  have "\<not> c_isspace y" using assms snoc by (simp add: digit_not_space)
  then show ?thesis using snoc a by simp
qed

lemma py_int_digits:
  assumes "list_all is_digit ds" "ds \<noteq> []"
  shows "py_int ds = Inr (int (foldl (\<lambda>a c. a * 10 + digit_val c) 0 ds))"
proof -
  obtain c cs where ds: "ds = c # cs" using assms(2) by (cases ds) auto
  have "is_digit c" using assms(1) ds by simp
  then have sign: "c \<noteq> CHR ''-''" "c \<noteq> CHR ''+''"
    by (auto simp add: is_digit_def)
  have t: "rev (dropWhile c_isspace (rev (dropWhile c_isspace ds))) = c # cs"
    using strip_digits [OF assms(1)] ds by simp
  have b: "int_body (c # cs) = Some (foldl (\<lambda>a c. a * 10 + digit_val c) 0 ds)"
    using int_body_all [OF assms] ds by simp
  show ?thesis
    unfolding py_int_def t Let_def using sign b by simp
qed

text \<open>\<^verbatim>\<open>int()\<close> reads the decimal text of a number back.\<close>

lemma py_int_dec: "py_int (dec n) = Inr (int n)"
  using dec_digits [of n] by (simp add: py_int_digits foldl_dec)

lemma dec_not_unknown: "dec n \<noteq> ''Unknown''"
proof
  assume "dec n = ''Unknown''"
  then have "list_all is_digit ''Unknown''" using dec_digits [of n] by simp
  then show False by (simp add: is_digit_def)
qed


lemma replace_season_digits:
  "list_all is_digit ds \<Longrightarrow> str_replace '' Season'' [] (ds @ '' Season'') = ds"
  by (induction ds) (auto simp add: is_digit_def)

lemma replace_seasons_digits:
  "list_all is_digit ds \<Longrightarrow> str_replace '' Season'' [] (ds @ '' Seasons'') = ds @ ''s''"
  by (induction ds) (auto simp add: is_digit_def)

lemma replace_s_digits:
  "list_all is_digit ds \<Longrightarrow> str_replace ''s'' [] ds = ds
     \<and> str_replace ''s'' [] (ds @ ''s'') = ds"
  by (induction ds) (auto simp add: is_digit_def)

lemma astype_int_dec:
  "astype_int (PyStr (dec n)) = (if n < 2 ^ 63 then Inr (int n) else Inl ConversionError)"
proof -
  have "int n < 2 ^ 63 \<longleftrightarrow> n < 2 ^ 63"
    by (metis of_nat_less_iff of_nat_numeral of_nat_power)
  then show ?thesis
    by (simp add: astype_int_def py_int_dec to_int64_def)
qed


lemma seasons_of_dec:
  "seasons_of (dec n @ '' Season'') = (if n < 2 ^ 63 then Inr (int n) else Inl ConversionError)
   \<and> seasons_of (dec n @ '' Seasons'') = (if n < 2 ^ 63 then Inr (int n) else Inl ConversionError)"
  using dec_digits [of n]
  by (simp add: seasons_of_def replace_season_digits replace_seasons_digits replace_s_digits
      replace_unknown_def dec_not_unknown astype_int_dec)

lemma unknown_zero: "minutes_of ''Unknown'' = Inr 0 \<and> seasons_of ''Unknown'' = Inr 0"
  by (simp add: minutes_of_def seasons_of_def replace_unknown_def astype_int_def to_int64_def)







lemma astype_all_Inr:
  "astype_all f xs = Inr ns \<longleftrightarrow> map f xs = map Inr ns"
proof (induction xs arbitrary: ns)
  case Nil
  then show ?case by auto
next
  case (Cons x xs)
  show ?case
  proof (cases "f x")
    case (Inl e)
    then show ?thesis by (cases ns) auto
  next
    case (Inr n)
    show ?thesis
    proof (cases "astype_all f xs")
      case (Inl e)
      then have "\<forall>ms. map f xs \<noteq> map Inr ms" using Cons.IH by auto
      then show ?thesis using Inl Inr by (cases ns) auto
    next
      case r: (Inr ms)
      then have "map f xs = map Inr ms" using Cons.IH by simp
      then show ?thesis using r Inr by (cases ns) (auto simp add: inj_map_eq_map)
    qed
  qed
qed


lemma season_frame_seasons: "tv_seasons season_frame = Inr [3, 1, 1, 2, 1, 2]"
  by (simp add: tv_seasons_def tv_shows_def season_frame_def title_row_def seasons_of_def
      replace_unknown_def astype_int_def to_int64_def py_int_def int_body_def is_digit_def
      digit_val_def c_isspace_def)

lemma season_frame_groups: "group_counts [3, 1, 1, 2, 1, 2 :: int] = [(3, 1), (1, 3), (2, 2)]"
  by code_simp

text \<open>The counts of the season frame all differ, so every sort gives the same table.\<close>

lemma season_frame_table:
  assumes "sorts_by_count sv"
  shows "season_counts sv season_frame = Inr [(1, 3), (2, 2), (3, 1)]"
proof -
  have "value_counts sv [3, 1, 1, 2, 1, 2 :: int] = sort_ties_kept (group_counts [3, 1, 1, 2, 1, 2 :: int])"
    by (rule value_counts_unique [OF assms]) (simp add: season_frame_groups)
  then show ?thesis
    by (simp add: season_counts_def season_frame_seasons season_frame_groups sort_ties_kept_def
        head_def)
qed




text \<open>
  C5 (as amended). On the TV Show rows, \<open>"<N> Season"\<close> and \<open>"<N> Seasons"\<close> give \<open>N\<close>
  when \<open>N\<close> is below \<open>2^63\<close> and \<open>"Unknown"\<close> gives 0. When every row converts, the table
  has one row per season number with the number of shows, in descending order of the
  number of shows, and is cut to its first 10 rows, which leaves out no row with more shows
  than a row kept.
\<close>

theorem season_counts_by_count:
  assumes "sorts_by_count sv"
  shows "seasons_of (dec n @ '' Season'') = (if n < 2 ^ 63 then Inr (int n) else Inl ConversionError)
   \<and> seasons_of (dec n @ '' Seasons'') = (if n < 2 ^ 63 then Inr (int n) else Inl ConversionError)
   \<and> seasons_of ''Unknown'' = Inr 0
   \<and> (tv_seasons df = Inr col \<longleftrightarrow>
        map seasons_of (map duration (filter (\<lambda>r. type r = Some ''TV Show'') df)) = map Inr col)
   \<and> (tv_seasons df = Inr col \<longrightarrow>
        season_counts sv df = Inr (take 10 (value_counts sv col))
        \<and> length (take 10 (value_counts sv col)) \<le> 10
        \<and> distinct (map fst (value_counts sv col))
        \<and> set (map fst (value_counts sv col)) = set col
        \<and> map snd (value_counts sv col) = map (count_list col) (map fst (value_counts sv col))
        \<and> sorted_wrt (\<lambda>p q. snd q \<le> snd p) (value_counts sv col)
        \<and> (\<forall>p \<in> set (take 10 (value_counts sv col)).
             \<forall>q \<in> set (drop 10 (value_counts sv col)). snd q \<le> snd p))"
proof -
  have a: "tv_seasons df = Inr col \<longleftrightarrow>
        map seasons_of (map duration (filter (\<lambda>r. type r = Some ''TV Show'') df)) = map Inr col"
    by (simp add: tv_seasons_def tv_shows_def astype_all_Inr)
  have b: "season_counts sv df = Inr (take 10 (value_counts sv col))" if "tv_seasons df = Inr col"
    using that by (simp add: season_counts_def head_def)
  have c: "\<forall>p \<in> set (take 10 (value_counts sv col)).
             \<forall>q \<in> set (drop 10 (value_counts sv col)). snd q \<le> snd p"
    using head_keeps_largest [OF assms, of 10 col] by (simp add: head_def)
  show ?thesis
    using a b c seasons_of_dec [of n] unknown_zero distinct_keys_value_counts [OF assms, of col]
      keys_value_counts [OF assms, of col] snd_value_counts [OF assms, of col]
      sorted_value_counts [OF assms, of col]
    by simp
qed

text \<open>
  A witness on the season frame: three shows of one season, two of two seasons, one of
  three seasons.
\<close>

theorem season_counts_by_count_witness:
  "sorts_by_count (sort_ties_kept :: (int \<times> nat) list \<Rightarrow> (int \<times> nat) list)
   \<and> tv_seasons season_frame = Inr [3, 1, 1, 2, 1, 2]
   \<and> season_counts sort_ties_kept season_frame = Inr [(1, 3), (2, 2), (3, 1)]
   \<and> seasons_of (dec 3 @ '' Seasons'') = Inr 3"
proof -
  note t = season_counts_by_count [OF sorts_ties_kept, of 3 season_frame "[3, 1, 1, 2, 1, 2]"]
  have "season_counts sort_ties_kept season_frame
      = Inr (take 10 (value_counts sort_ties_kept [3, 1, 1, 2, 1, 2]))"
    using t season_frame_seasons by blast
  moreover have "seasons_of (dec 3 @ '' Seasons'') = Inr 3"
    using t by simp
  ultimately show ?thesis
    by (simp add: sorts_ties_kept season_frame_seasons value_counts_def season_frame_groups
        sort_ties_kept_def)
qed

text \<open>
  C5, the claim as stated fails: on the season frame the table starts with one season
  (three shows) and ends with three seasons (one show), so it is not ordered by season
  number, largest first.
\<close>

theorem season_counts_counterexample:
  "sorts_by_count (sort_ties_kept :: (int \<times> nat) list \<Rightarrow> (int \<times> nat) list)
   \<and> season_counts sort_ties_kept season_frame = Inr [(1, 3), (2, 2), (3, 1)]
   \<and> \<not> spec_season_descending [(1, 3), (2, 2), (3, 1)]"
  by (simp add: sorts_ties_kept season_frame_table spec_season_descending_def)

section \<open>Genres: properties\<close>






text \<open>
  On a column that holds no text and that pandas does not hold as text, the line raises.
\<close>

lemma genres_raises:
  "\<not> text_dtype \<Longrightarrow> \<not> list_ex (\<lambda>r. listed_in r \<noteq> None) df
     \<Longrightarrow> top_genres sv text_dtype df = Inl AttributeError"
  by (simp add: top_genres_def genres_def)








section \<open>The sentinel: properties\<close>








end
